theory Spec2Isabelle
  imports Complex_Main
begin

section \<open>Strings\<close>

text \<open>
  A JavaScript string is modelled as a \<^typ>\<open>string\<close>, one \<^typ>\<open>char\<close> per UTF-16 code unit
  below U+0100. \<open>String.prototype.trim\<close> strips white space and line terminators from both
  ends; below U+0100 these are TAB, LF, VT, FF, CR, SPACE and NBSP.
\<close>

definition is_whitespace :: "char \<Rightarrow> bool" where
  "is_whitespace c \<longleftrightarrow>
     c \<in> {CHR 0x09, CHR 0x0A, CHR 0x0B, CHR 0x0C, CHR 0x0D, CHR 0x20, CHR 0xA0}"

definition trim :: "string \<Rightarrow> string" where
  "trim s = rev (dropWhile is_whitespace (rev (dropWhile is_whitespace s)))"

text \<open>\<open>s.split('\n')\<close>: the pieces between line feeds; the empty string gives one empty piece.\<close>

fun split_lines :: "string \<Rightarrow> string list" where
  "split_lines [] = [[]]"
| "split_lines (c # cs) =
     (if c = CHR 0x0A then [] # split_lines cs
      else (case split_lines cs of
              [] \<Rightarrow> [[c]]
            | l # ls \<Rightarrow> (c # l) # ls))"

text \<open>\<open>s.includes(sub)\<close>: \<open>sub\<close> occurs in \<open>s\<close> as a contiguous run.\<close>

fun str_includes :: "string \<Rightarrow> string \<Rightarrow> bool" where
  "str_includes [] sub = (sub = [])"
| "str_includes (c # cs) sub = (take (length sub) (c # cs) = sub \<or> str_includes cs sub)"

text \<open>\<open>s.substring(0, n)\<close> is \<^term>\<open>take n s\<close>; \<open>/^sk-/.test(s)\<close> is a prefix test.\<close>

definition starts_with :: "string \<Rightarrow> string \<Rightarrow> bool" where
  "starts_with pre s \<longleftrightarrow> take (length pre) s = pre"

section \<open>Configuration (types/configuration.ts, services/configurationManager.ts)\<close>

text \<open>
  The snapshot returned by \<open>getConfiguration\<close>. Only the four top-level settings are kept:
  no function modelled here reads the per-feature toggles or the cache settings.
  \<open>model\<close> is a string at run time, whatever the declared union type says.
\<close>

record configuration =
  apiKey :: string
  model :: string
  maxTokens :: int
  temperature :: real

datatype severity = Error | Warning

record configuration_error =
  field :: string
  message :: string
  severity :: severity

record configuration_validation_result =
  isValid :: bool
  errors :: "configuration_error list"
  warnings :: "configuration_error list"

definition isValidApiKeyFormat :: "string \<Rightarrow> bool" where
  "isValidApiKeyFormat k \<longleftrightarrow> length k \<ge> 20 \<and> starts_with ''sk-'' k"

text \<open>
  \<open>validateConfiguration\<close> pushes issues onto one array in source order and splits it by
  severity at the end. \<open>collected\<close> is that array.
\<close>

definition collected :: "configuration \<Rightarrow> configuration_error list" where
  "collected config =
     (if apiKey config = [] \<or> trim (apiKey config) = []
      then [\<lparr>field = ''apiKey'', message = ''API Key is required'', severity = Error\<rparr>]
      else if \<not> isValidApiKeyFormat (apiKey config)
      then [\<lparr>field = ''apiKey'', message = ''API Key format appears invalid'',
             severity = Warning\<rparr>]
      else [])
     @ (if model config \<notin> set [''deepseek-coder'', ''deepseek-chat'']
        then [\<lparr>field = ''model'', message = ''Invalid model selected'', severity = Error\<rparr>]
        else [])
     @ (if maxTokens config < 100 \<or> maxTokens config > 8192
        then [\<lparr>field = ''maxTokens'', message = ''Max tokens must be between 100 and 8192'',
               severity = Error\<rparr>]
        else [])
     @ (if temperature config < 0 \<or> temperature config > 2
        then [\<lparr>field = ''temperature'', message = ''Temperature must be between 0 and 2'',
               severity = Error\<rparr>]
        else [])
     @ (if maxTokens config > 4096
        then [\<lparr>field = ''maxTokens'', message = ''High token count may impact performance'',
               severity = Warning\<rparr>]
        else [])"

definition validateConfiguration :: "configuration \<Rightarrow> configuration_validation_result" where
  "validateConfiguration config =
     (let errs = collected config in
      \<lparr>isValid = (\<not> list_ex (\<lambda>e. severity e = Error) errs),
       errors = filter (\<lambda>e. severity e = Error) errs,
       warnings = filter (\<lambda>e. severity e = Warning) errs\<rparr>)"

section \<open>Model responses (types/deepseek.ts) and their parsers\<close>

record deepseek_message =
  role :: string
  content :: string

record deepseek_choice =
  index :: nat
  choice_message :: deepseek_message
  finish_reason :: string

text \<open>
  Of a response only \<open>choices\<close> is read. It arrives as JSON, so it may be absent
  (\<^term>\<open>None\<close>) although the interface declares it.
\<close>

record deepseek_response =
  choices :: "deepseek_choice list option"

definition parseCompletionResponse :: "deepseek_response \<Rightarrow> string list" where
  "parseCompletionResponse response =
     (case choices response of
        None \<Rightarrow> []
      | Some [] \<Rightarrow> []
      | Some (c # _) \<Rightarrow>
          take 5 (filter (\<lambda>line. length line > 0)
                    (map trim (split_lines (content (choice_message c))))))"

definition parseExplanationResponse :: "deepseek_response \<Rightarrow> string" where
  "parseExplanationResponse response =
     (case choices response of
        None \<Rightarrow> ''No explanation available.''
      | Some [] \<Rightarrow> ''No explanation available.''
      | Some (c # _) \<Rightarrow> trim (content (choice_message c)))"

definition parseRefactorResponse :: "deepseek_response \<Rightarrow> string" where
  "parseRefactorResponse response =
     (case choices response of
        None \<Rightarrow> ''No refactoring suggestions available.''
      | Some [] \<Rightarrow> ''No refactoring suggestions available.''
      | Some (c # _) \<Rightarrow> trim (content (choice_message c)))"

section \<open>Failures\<close>

text \<open>
  What a \<open>catch\<close> clause or an error handler receives (\<open>error: any\<close>): \<open>null\<close> or
  \<open>undefined\<close>, a literal string, or an object (an \<open>AxiosError\<close>, a native \<open>Error\<close>, a
  plain object). Of an object the code reads \<open>instanceof Error\<close>, \<open>message\<close>, \<open>code\<close>,
  \<open>request\<close> and \<open>response\<close>, and of a response its \<open>status\<close> and
  \<open>data.error?.message\<close>. Reading a property of \<open>null\<close> or \<open>undefined\<close> without \<open>?.\<close>
  raises a \<open>TypeError\<close>.
\<close>

record http_response =
  status :: nat
  api_error_message :: "string option"

record js_error =
  instanceof_Error :: bool
  err_message :: "string option"
  err_code :: "string option"
  err_request :: bool
  err_response :: "http_response option"

datatype failure = Nullish | Str string | Obj js_error

datatype js_exception = TypeError

text \<open>\<open>new Error(msg)\<close>: a native error that carries a message and nothing else.\<close>

definition new_Error :: "string \<Rightarrow> js_error" where
  "new_Error msg =
     \<lparr>instanceof_Error = True, err_message = Some msg, err_code = None,
      err_request = False, err_response = None\<rparr>"

section \<open>DeepSeekClient (services/deepseekClient.ts)\<close>

record deepseek_request =
  req_model :: string
  messages :: "deepseek_message list"
  max_tokens :: int
  req_temperature :: real

text \<open>One network request as it leaves the client.\<close>

record sent_request =
  authorization :: string
  url :: string
  body :: deepseek_request

text \<open>
  The request id \<open>`${endpoint}-${Date.now()}`\<close> is kept as the pair of its two parts.
  \<open>Date.now()\<close> prints as decimal digits, so two ids are equal as strings exactly when
  endpoint and timestamp are equal.
\<close>

type_synonym request_id = "string \<times> nat"

text \<open>
  The client's mutable state and its environment: the configuration the Configuration
  Store returns, the \<open>retryCount\<close> map, the clock read by \<open>Date.now()\<close> (milliseconds),
  and two observables: the requests issued and the back-off delays waited, oldest first.
\<close>

record client_state =
  config :: configuration
  retryCount :: "request_id \<rightharpoonup> nat"
  now :: nat
  sent :: "sent_request list"
  delays :: "nat list"

definition MAX_RETRIES :: nat where
  "MAX_RETRIES = 3"

text \<open>
  The transport's answer to one attempt, with the time it took: a 2xx response, or the
  \<open>AxiosError\<close> axios rejects with.
\<close>

datatype reply = Resolved nat deepseek_response | Rejected nat js_error

text \<open>
  \<open>handleApiError\<close> is the rejection handler of the response interceptor. It always
  throws a new native error; the result here is that error. \<open>x || 'Unknown error'\<close> takes
  the default for an absent and for an empty message.
\<close>

definition handleApiError :: "js_error \<Rightarrow> js_error" where
  "handleApiError error =
     (case err_response error of
        Some response \<Rightarrow>
          (if status response = 401
           then new_Error ''Invalid API key. Please check your configuration.''
           else if status response = 429
           then new_Error ''Rate limit exceeded. Please try again later.''
           else if status response = 500
           then new_Error ''DeepSeek API server error. Please try again later.''
           else new_Error (''API Error: '' @
                  (case api_error_message response of
                     None \<Rightarrow> ''Unknown error''
                   | Some m \<Rightarrow> if m = [] then ''Unknown error'' else m)))
      | None \<Rightarrow>
          (if err_request error
           then new_Error ''Network error. Please check your internet connection.''
           else new_Error (''Request error: '' @
                  (case err_message error of None \<Rightarrow> ''undefined'' | Some m \<Rightarrow> m))))"

text \<open>
  \<open>httpClient.post\<close>: the transport's answer passed through the response interceptors
  installed by \<open>initializeHttpClient\<close>. A response passes unchanged; a rejection is
  replaced by what \<open>handleApiError\<close> throws.
\<close>

fun post :: "reply \<Rightarrow> nat \<times> (js_error + deepseek_response)" where
  "post (Resolved dt response) = (dt, Inr response)"
| "post (Rejected dt error) = (dt, Inl (handleApiError error))"

definition shouldRetry :: "js_error \<Rightarrow> bool" where
  "shouldRetry error =
     (case err_response error of
        None \<Rightarrow> True
      | Some response \<Rightarrow> status response \<ge> 500 \<or> status response = 429)"

text \<open>
  The result of an asynchronous call as far as the transport has answered: it returned, it
  threw, or it is still waiting for an answer (the list of replies is used up).
\<close>

datatype 'a outcome = Returned 'a | Threw js_error | Pending

definition issue :: "client_state \<Rightarrow> string \<Rightarrow> deepseek_request \<Rightarrow> client_state" where
  "issue st endpoint data =
     st\<lparr>sent := sent st @
        [\<lparr>authorization = ''Bearer '' @ apiKey (config st), url = endpoint, body = data\<rparr>]\<rparr>"

text \<open>
  \<open>makeRequest\<close> and \<open>handleRequestError\<close> call each other. The replies are the transport's
  answers to the attempts of this call, in order; each attempt consumes one.
\<close>

fun makeRequest ::
    "reply list \<Rightarrow> client_state \<Rightarrow> string \<Rightarrow> deepseek_request \<Rightarrow>
     deepseek_response outcome \<times> client_state"
  and handleRequestError ::
    "reply list \<Rightarrow> client_state \<Rightarrow> js_error \<Rightarrow> string \<Rightarrow> deepseek_request \<Rightarrow> request_id \<Rightarrow>
     deepseek_response outcome \<times> client_state"
where
  "makeRequest [] st endpoint data = (Pending, issue st endpoint data)"
| "makeRequest (r # rs) st endpoint data =
     (let requestId = (endpoint, now st);
          st1 = issue st endpoint data
      in case post r of
           (dt, Inr response) \<Rightarrow>
             (Returned response,
              st1\<lparr>now := now st1 + dt, retryCount := (retryCount st1)(requestId := None)\<rparr>)
         | (dt, Inl error) \<Rightarrow>
             handleRequestError rs (st1\<lparr>now := now st1 + dt\<rparr>) error endpoint data requestId)"
| "handleRequestError replies st error endpoint data requestId =
     (let currentRetries = (case retryCount st requestId of None \<Rightarrow> 0 | Some n \<Rightarrow> n)
      in if shouldRetry error \<and> currentRetries < MAX_RETRIES
         then let delay = 2 ^ currentRetries * 1000
              in makeRequest replies
                   (st\<lparr>retryCount := (retryCount st)(requestId \<mapsto> currentRetries + 1),
                       delays := delays st @ [delay],
                       now := now st + delay\<rparr>)
                   endpoint data
         else (Threw error, st\<lparr>retryCount := (retryCount st)(requestId := None)\<rparr>))"

text \<open>
  The four operations. The user prompt is the text the \<open>build...Prompt\<close> template produced
  from the request object.
\<close>

definition generateCompletion ::
    "reply list \<Rightarrow> client_state \<Rightarrow> string \<Rightarrow> string list outcome \<times> client_state" where
  "generateCompletion replies st prompt =
     (let deepseekRequest =
        \<lparr>req_model = model (config st),
         messages =
           [\<lparr>role = ''system'',
             content = ''You are a helpful coding assistant. Provide code completions based on the context.''\<rparr>,
            \<lparr>role = ''user'', content = prompt\<rparr>],
         max_tokens = min (maxTokens (config st)) 1024,
         req_temperature = temperature (config st)\<rparr>
      in case makeRequest replies st ''/chat/completions'' deepseekRequest of
           (Returned response, st') \<Rightarrow> (Returned (parseCompletionResponse response), st')
         | (Threw error, st') \<Rightarrow> (Threw (new_Error ''Failed to generate code completion''), st')
         | (Pending, st') \<Rightarrow> (Pending, st'))"

definition explainCode ::
    "reply list \<Rightarrow> client_state \<Rightarrow> string \<Rightarrow> string outcome \<times> client_state" where
  "explainCode replies st prompt =
     (let deepseekRequest =
        \<lparr>req_model = model (config st),
         messages =
           [\<lparr>role = ''system'',
             content = ''You are a helpful coding assistant. Explain code clearly and concisely.''\<rparr>,
            \<lparr>role = ''user'', content = prompt\<rparr>],
         max_tokens = maxTokens (config st),
         req_temperature = temperature (config st)\<rparr>
      in case makeRequest replies st ''/chat/completions'' deepseekRequest of
           (Returned response, st') \<Rightarrow> (Returned (parseExplanationResponse response), st')
         | (Threw error, st') \<Rightarrow> (Threw (new_Error ''Failed to explain code''), st')
         | (Pending, st') \<Rightarrow> (Pending, st'))"

definition refactorCode ::
    "reply list \<Rightarrow> client_state \<Rightarrow> string \<Rightarrow> string outcome \<times> client_state" where
  "refactorCode replies st prompt =
     (let deepseekRequest =
        \<lparr>req_model = model (config st),
         messages =
           [\<lparr>role = ''system'',
             content = ''You are a helpful coding assistant. Refactor code to improve quality while maintaining functionality.''\<rparr>,
            \<lparr>role = ''user'', content = prompt\<rparr>],
         max_tokens = maxTokens (config st),
         req_temperature = temperature (config st)\<rparr>
      in case makeRequest replies st ''/chat/completions'' deepseekRequest of
           (Returned response, st') \<Rightarrow> (Returned (parseRefactorResponse response), st')
         | (Threw error, st') \<Rightarrow> (Threw (new_Error ''Failed to refactor code''), st')
         | (Pending, st') \<Rightarrow> (Pending, st'))"

definition testConnection :: "reply list \<Rightarrow> client_state \<Rightarrow> bool outcome \<times> client_state" where
  "testConnection replies st =
     (let testRequest =
        \<lparr>req_model = model (config st),
         messages = [\<lparr>role = ''user'', content = ''Hello, this is a connection test.''\<rparr>],
         max_tokens = 10,
         req_temperature = 0\<rparr>
      in case makeRequest replies st ''/chat/completions'' testRequest of
           (Returned response, st') \<Rightarrow> (Returned True, st')
         | (Threw error, st') \<Rightarrow> (Returned False, st')
         | (Pending, st') \<Rightarrow> (Pending, st'))"

section \<open>ErrorHandler (utils/errorHandler.ts)\<close>

text \<open>
  \<open>getErrorMessage\<close>. A native error always has a string message (the prototype's is
  empty); the two \<open>?.\<close> chains after it take a message only when it is non-empty, and
  give nothing on \<open>null\<close> and \<open>undefined\<close>.
\<close>

definition getErrorMessage :: "failure \<Rightarrow> string" where
  "getErrorMessage error =
     (case error of
        Nullish \<Rightarrow> ''An unexpected error occurred''
      | Str s \<Rightarrow> s
      | Obj e \<Rightarrow>
          if instanceof_Error e
          then (case err_message e of None \<Rightarrow> [] | Some m \<Rightarrow> m)
          else (case (case err_response e of None \<Rightarrow> None | Some r \<Rightarrow> api_error_message r) of
                  Some m \<Rightarrow>
                    if m \<noteq> [] then m
                    else (case err_message e of
                            None \<Rightarrow> ''An unexpected error occurred''
                          | Some m' \<Rightarrow> if m' \<noteq> [] then m' else ''An unexpected error occurred'')
                | None \<Rightarrow>
                    (case err_message e of
                       None \<Rightarrow> ''An unexpected error occurred''
                     | Some m' \<Rightarrow> if m' \<noteq> [] then m' else ''An unexpected error occurred'')))"

definition getErrorKey :: "failure \<Rightarrow> string \<Rightarrow> string" where
  "getErrorKey error context = context @ '':'' @ take 50 (getErrorMessage error)"

text \<open>
  The three predicates. Each reads \<open>error.response\<close> with no guard, which raises on
  \<open>null\<close> and \<open>undefined\<close>. A literal string has no \<open>response\<close>, \<open>code\<close> or \<open>message\<close>
  property, so each of them is false on it.
\<close>

definition isNetworkError :: "failure \<Rightarrow> js_exception + bool" where
  "isNetworkError error =
     (case error of
        Nullish \<Rightarrow> Inl TypeError
      | Str s \<Rightarrow> Inr False
      | Obj e \<Rightarrow>
          Inr (err_response e = None \<and>
               (err_code e = Some ''ECONNREFUSED'' \<or>
                err_code e = Some ''ENOTFOUND'' \<or>
                err_code e = Some ''ENETUNREACH'' \<or>
                (case err_message e of None \<Rightarrow> False | Some m \<Rightarrow> str_includes m ''network''))))"

definition isAuthenticationError :: "failure \<Rightarrow> js_exception + bool" where
  "isAuthenticationError error =
     (case error of
        Nullish \<Rightarrow> Inl TypeError
      | Str s \<Rightarrow> Inr False
      | Obj e \<Rightarrow>
          Inr (case err_response e of
                 None \<Rightarrow> False
               | Some r \<Rightarrow> status r = 401 \<or> status r = 403))"

definition isRateLimitError :: "failure \<Rightarrow> js_exception + bool" where
  "isRateLimitError error =
     (case error of
        Nullish \<Rightarrow> Inl TypeError
      | Str s \<Rightarrow> Inr False
      | Obj e \<Rightarrow>
          Inr (case err_response e of
                 None \<Rightarrow> False
               | Some r \<Rightarrow> status r = 429))"

text \<open>
  The handler's state: the \<open>errorCount\<close> map, the pending \<open>setTimeout\<close> callbacks (the time
  each is due, in milliseconds, and the key it deletes), the clock, and the messages shown
  to the user, oldest first.
\<close>

record handler_state =
  errorCount :: "string \<rightharpoonup> nat"
  timers :: "(nat \<times> string) list"
  clock :: nat
  shown :: "string list"

definition maxErrorsPerType :: nat where
  "maxErrorsPerType = 5"

definition RESET_MS :: nat where
  "RESET_MS = 5 * 60 * 1000"

definition showErrorToUser :: "handler_state \<Rightarrow> failure \<Rightarrow> string \<Rightarrow> handler_state" where
  "showErrorToUser st error context =
     st\<lparr>shown := shown st @ [''Error in '' @ context @ '': '' @ getErrorMessage error]\<rparr>"

definition handleError :: "handler_state \<Rightarrow> failure \<Rightarrow> string \<Rightarrow> bool \<Rightarrow> handler_state" where
  "handleError st error context showUser =
     (let errorKey = getErrorKey error context;
          currentCount = (case errorCount st errorKey of None \<Rightarrow> 0 | Some n \<Rightarrow> n);
          st1 = st\<lparr>errorCount := (errorCount st)(errorKey \<mapsto> currentCount + 1)\<rparr>;
          st2 = (if showUser \<and> currentCount < maxErrorsPerType
                 then showErrorToUser st1 error context else st1)
      in st2\<lparr>timers := timers st2 @ [(clock st2 + RESET_MS, errorKey)]\<rparr>)"

text \<open>
  Time passing up to \<open>t\<close>: every callback due by then runs, each deleting its key, and
  leaves the timer list.
\<close>

definition elapse :: "nat \<Rightarrow> handler_state \<Rightarrow> handler_state" where
  "elapse t st =
     st\<lparr>errorCount := fold (\<lambda>(due, key) m. m(key := None))
                        (filter (\<lambda>(due, key). due \<le> t) (timers st)) (errorCount st),
        timers := filter (\<lambda>(due, key). \<not> due \<le> t) (timers st),
        clock := max (clock st) t\<rparr>"

text \<open>A run of the handler: occurrences \<open>(time, error, context)\<close> with \<open>showUser\<close> left at its default.\<close>

fun occurrences :: "handler_state \<Rightarrow> (nat \<times> failure \<times> string) list \<Rightarrow> handler_state" where
  "occurrences st [] = st"
| "occurrences st ((t, error, context) # rest) =
     occurrences (handleError (elapse t st) error context True) rest"

text \<open>
  \<open>ErrorHandler.handleApiError\<close> tries the three predicates in order and hands the error to
  the first handler that matches, else to \<open>handleError\<close>. \<open>route\<close> is that choice; a
  predicate that raises ends the call with its exception.
\<close>

datatype route = NetworkHandler | AuthenticationHandler | RateLimitHandler | GeneralHandler

definition route :: "failure \<Rightarrow> js_exception + route" where
  "route error =
     (case isNetworkError error of
        Inl x \<Rightarrow> Inl x
      | Inr network \<Rightarrow>
          if network then Inr NetworkHandler
          else (case isAuthenticationError error of
                  Inl x \<Rightarrow> Inl x
                | Inr authentication \<Rightarrow>
                    if authentication then Inr AuthenticationHandler
                    else (case isRateLimitError error of
                            Inl x \<Rightarrow> Inl x
                          | Inr rateLimit \<Rightarrow>
                              if rateLimit then Inr RateLimitHandler
                              else Inr GeneralHandler)))"

definition errorHandler_handleApiError ::
    "handler_state \<Rightarrow> failure \<Rightarrow> string \<Rightarrow> js_exception + handler_state" where
  "errorHandler_handleApiError st error context =
     (case route error of
        Inl x \<Rightarrow> Inl x
      | Inr NetworkHandler \<Rightarrow>
          Inr (st\<lparr>shown := shown st @
                 [''Network error occurred. Please check your internet connection.'']\<rparr>)
      | Inr AuthenticationHandler \<Rightarrow>
          Inr (st\<lparr>shown := shown st @
                 [''API authentication failed. Please check your API key.'']\<rparr>)
      | Inr RateLimitHandler \<Rightarrow>
          Inr (st\<lparr>shown := shown st @
                 [''API rate limit exceeded. Please wait a moment before trying again.'']\<rparr>)
      | Inr GeneralHandler \<Rightarrow> Inr (handleError st error context True))"

section \<open>The classifier as the specification words it\<close>

datatype classification =
  Network | Authentication | RateLimit | ServerFault | ClientFault | Unknown

text \<open>
  \<open>classify_spec\<close> follows the specification's decision list, not the code: no response and
  a connection-refused, host-not-found or network-unreachable code or a message that
  mentions "network"; status 401 or 403; status 429; status at least 500; a remaining status
  in [400, 499); anything else.
\<close>

definition classify_spec :: "js_error \<Rightarrow> classification" where
  "classify_spec e =
     (case err_response e of
        None \<Rightarrow>
          if err_code e = Some ''ECONNREFUSED'' \<or> err_code e = Some ''ENOTFOUND'' \<or>
             err_code e = Some ''ENETUNREACH'' \<or>
             (case err_message e of None \<Rightarrow> False | Some m \<Rightarrow> str_includes m ''network'')
          then Network else Unknown
      | Some r \<Rightarrow>
          if status r = 401 \<or> status r = 403 then Authentication
          else if status r = 429 then RateLimit
          else if status r \<ge> 500 then ServerFault
          else if 400 \<le> status r \<and> status r < 499 then ClientFault
          else Unknown)"

section \<open>Concrete inputs\<close>

text \<open>A response whose first choice holds three suggestions, a blank line and stray spaces.\<close>

definition sample_content :: string where
  "sample_content = [CHR ''a'', CHR 0x0A, CHR '' '', CHR ''b'', CHR 0x0A, CHR 0x0A, CHR ''c'', CHR 0x0A]"

definition sample_response :: deepseek_response where
  "sample_response = \<lparr>choices = Some [\<lparr>index = 0,
      choice_message = \<lparr>role = ''assistant'', content = sample_content\<rparr>,
      finish_reason = ''stop''\<rparr>]\<rparr>"

text \<open>A valid configuration, and a client that has made no request yet.\<close>

definition sample_config :: configuration where
  "sample_config =
     \<lparr>apiKey = ''sk-0123456789abcdef0123'', model = ''deepseek-coder'', maxTokens = 2048,
      temperature = 0.1\<rparr>"

definition fresh_client :: client_state where
  "fresh_client =
     \<lparr>config = sample_config, retryCount = Map.empty, now = 0, sent = [], delays = []\<rparr>"

definition network_failure :: js_error where
  "network_failure =
     \<lparr>instanceof_Error = True, err_message = Some ''connect ECONNREFUSED 127.0.0.1:443'',
      err_code = Some ''ECONNREFUSED'', err_request = True, err_response = None\<rparr>"

definition status_failure :: "nat \<Rightarrow> js_error" where
  "status_failure n =
     \<lparr>instanceof_Error = True,
      err_message = Some ''Request failed'',
      err_code = Some ''ERR_BAD_RESPONSE'', err_request = True,
      err_response = Some \<lparr>status = n, api_error_message = Some ''upstream said no''\<rparr>\<rparr>"

definition probe :: deepseek_request where
  "probe =
     \<lparr>req_model = ''deepseek-coder'',
      messages = [\<lparr>role = ''user'', content = ''Hello, this is a connection test.''\<rparr>],
      max_tokens = 10, req_temperature = 0\<rparr>"

definition empty_response :: deepseek_response where
  "empty_response = \<lparr>choices = Some []\<rparr>"

text \<open>
  The same client with a blank API key; the same client with three retries already counted
  under the id its next request will get (as after id collisions with other calls); and a
  plain object that has none of the properties the handlers read.
\<close>

definition invalid_client :: client_state where
  "invalid_client = fresh_client\<lparr>config := sample_config\<lparr>apiKey := []\<rparr>\<rparr>"


definition plain_failure :: js_error where
  "plain_failure =
     \<lparr>instanceof_Error = False, err_message = None, err_code = None, err_request = False,
      err_response = None\<rparr>"

text \<open>
  A handler that has seen no error yet, and the message \<open>showErrorToUser\<close> shows for an
  occurrence.
\<close>

definition quiet_handler :: handler_state where
  "quiet_handler = \<lparr>errorCount = Map.empty, timers = [], clock = 0, shown = []\<rparr>"

definition user_message :: "nat \<times> failure \<times> string \<Rightarrow> string" where
  "user_message occ = (case occ of (t, error, context) \<Rightarrow>
     ''Error in '' @ context @ '': '' @ getErrorMessage error)"

text \<open>
  Two failures whose messages agree on their first 50 characters, six occurrences of them
  within six seconds, and the key they share.
\<close>

definition reset_by_peer :: failure where
  "reset_by_peer = Str ''Request to the model endpoint failed after the connection was reset by peer''"

definition timed_out :: failure where
  "timed_out = Obj (new_Error ''Request to the model endpoint failed after the connection timed out'')"

definition six_occurrences :: "(nat \<times> failure \<times> string) list" where
  "six_occurrences =
     [(1000, reset_by_peer, ''completion''), (2000, timed_out, ''completion''),
      (3000, reset_by_peer, ''completion''), (4000, timed_out, ''completion''),
      (5000, reset_by_peer, ''completion''), (6000, timed_out, ''completion'')]"

definition sample_key :: string where
  "sample_key = ''completion:Request to the model endpoint failed after the con''"

text \<open>
  Nine occurrences of one failure: two in the first five minutes, six in the next 50
  seconds, and one 100 seconds after the first of those six.
\<close>

definition unreachable :: failure where
  "unreachable = Str ''Host unreachable''"

definition stale_timer_run :: "(nat \<times> failure \<times> string) list" where
  "stale_timer_run =
     [(0, unreachable, ''chat''), (100000, unreachable, ''chat''),
      (310000, unreachable, ''chat''), (320000, unreachable, ''chat''),
      (330000, unreachable, ''chat''), (340000, unreachable, ''chat''),
      (350000, unreachable, ''chat''), (360000, unreachable, ''chat''),
      (410000, unreachable, ''chat'')]"

section \<open>The response parsers\<close>

lemma trimmed_end:
  assumes "a = [] \<or> \<not> P (hd a)"
  shows "dropWhile P (rev (dropWhile P (rev a))) = rev (dropWhile P (rev a))"
proof (cases "dropWhile P (rev a) = []")
  case True
  then show ?thesis by (simp only: rev.simps(1) dropWhile.simps(1))
next
  case False
  define x where "x = rev (dropWhile P (rev a))"
  have split: "a = x @ rev (takeWhile P (rev a))"
  proof -
    have "x @ rev (takeWhile P (rev a)) = rev (takeWhile P (rev a) @ dropWhile P (rev a))"
      unfolding x_def by (simp only: rev_append)
    also have "\<dots> = a"
      by (simp only: takeWhile_dropWhile_id rev_rev_ident)
    finally show ?thesis by (rule sym)
  qed
  have xne: "x \<noteq> []" using False by (simp add: x_def)
  then have "hd x = hd a" using split by (metis hd_append2)
  moreover have "a \<noteq> []" using split xne by auto
  ultimately have "\<not> P (hd x)" using assms by auto
  then have "dropWhile P x = x" using xne by (cases x) auto
  then show ?thesis by (simp add: x_def)
qed

lemma dropWhile_head: "dropWhile P s = [] \<or> \<not> P (hd (dropWhile P s))"
  by (metis hd_dropWhile)

lemma trim_trim: "trim (trim s) = trim s"
proof -
  let ?a = "dropWhile is_whitespace s"
  have 1: "dropWhile is_whitespace (trim s) = trim s"
    unfolding trim_def using trimmed_end [OF dropWhile_head] .
  have "trim (trim s) = rev (dropWhile is_whitespace (rev (trim s)))"
    using 1 by (simp add: trim_def)
  also have "rev (trim s) = dropWhile is_whitespace (rev ?a)" by (simp add: trim_def)
  also have "rev (dropWhile is_whitespace (dropWhile is_whitespace (rev ?a))) = trim s"
    by (simp add: trim_def)
  finally show ?thesis .
qed

lemma parseCompletion_lines:
  assumes "choices r = Some (c # cs)" and "s \<in> set (parseCompletionResponse r)"
  shows "s \<noteq> [] \<and> s \<in> trim ` set (split_lines (content (choice_message c))) \<and> trim s = s"
proof -
  from assms have "s \<in> set (filter (\<lambda>line. length line > 0)
      (map trim (split_lines (content (choice_message c)))))"
    by (auto simp: parseCompletionResponse_def dest: in_set_takeD)
  then have "s \<noteq> []" and mem: "s \<in> trim ` set (split_lines (content (choice_message c)))"
    by auto
  from mem obtain l where "s = trim l" by auto
  then have "trim s = s" by (simp add: trim_trim)
  with \<open>s \<noteq> []\<close> mem show ?thesis by simp
qed

text \<open>
  C10: on a response whose \<open>choices\<close> is absent or empty the completion parser returns the
  empty list, while the explanation and refactor parsers return their fixed sentences. With
  a first choice present, the completion parser returns at most 5 elements, each of them
  non-empty, the trimmed form of a line of the first choice's content, and itself trimmed.
\<close>

theorem parsers_on_choices:
  "(choices r = None \<or> choices r = Some [] \<longrightarrow>
      parseCompletionResponse r = [] \<and>
      parseExplanationResponse r = ''No explanation available.'' \<and>
      parseRefactorResponse r = ''No refactoring suggestions available.'') \<and>
   (\<forall>c cs. choices r = Some (c # cs) \<longrightarrow>
      length (parseCompletionResponse r) \<le> 5 \<and>
      (\<forall>s \<in> set (parseCompletionResponse r).
         s \<noteq> [] \<and> s \<in> trim ` set (split_lines (content (choice_message c))) \<and> trim s = s))"
proof (intro conjI allI impI)
  assume "choices r = None \<or> choices r = Some []"
  then show "parseCompletionResponse r = []"
    by (auto simp: parseCompletionResponse_def)
next
  assume "choices r = None \<or> choices r = Some []"
  then show "parseExplanationResponse r = ''No explanation available.''"
    by (auto simp: parseExplanationResponse_def)
next
  assume "choices r = None \<or> choices r = Some []"
  then show "parseRefactorResponse r = ''No refactoring suggestions available.''"
    by (auto simp: parseRefactorResponse_def)
next
  fix c cs assume "choices r = Some (c # cs)"
  then show "length (parseCompletionResponse r) \<le> 5"
    by (simp add: parseCompletionResponse_def)
next
  fix c cs assume h: "choices r = Some (c # cs)"
  show "\<forall>s \<in> set (parseCompletionResponse r).
         s \<noteq> [] \<and> s \<in> trim ` set (split_lines (content (choice_message c))) \<and> trim s = s"
    using parseCompletion_lines [OF h] by blast
qed

lemma sample_parse: "parseCompletionResponse sample_response = [''a'', ''b'', ''c'']"
  by (simp add: parseCompletionResponse_def sample_response_def sample_content_def trim_def is_whitespace_def)

theorem parsers_on_choices_witness:
  "parseCompletionResponse \<lparr>choices = None\<rparr> = [] \<and>
   parseExplanationResponse \<lparr>choices = Some []\<rparr> = ''No explanation available.'' \<and>
   parseRefactorResponse \<lparr>choices = Some []\<rparr> = ''No refactoring suggestions available.'' \<and>
   parseCompletionResponse sample_response = [''a'', ''b'', ''c''] \<and>
   length (parseCompletionResponse sample_response) \<le> 5 \<and>
   [] \<notin> set (parseCompletionResponse sample_response) \<and>
   set (parseCompletionResponse sample_response) \<subseteq> trim ` set (split_lines sample_content) \<and>
   map trim (parseCompletionResponse sample_response) = parseCompletionResponse sample_response"
proof -
  have a: "choices \<lparr>choices = None\<rparr> = None \<or> choices \<lparr>choices = None\<rparr> = Some []" by simp
  have b: "choices \<lparr>choices = Some []\<rparr> = None \<or> choices \<lparr>choices = Some []\<rparr> = Some []" by simp
  have c: "choices sample_response = Some (\<lparr>index = 0,
      choice_message = \<lparr>role = ''assistant'', content = sample_content\<rparr>,
      finish_reason = ''stop''\<rparr> # [])" by (simp add: sample_response_def)
  from parsers_on_choices [of "\<lparr>choices = None\<rparr>"] a
  have 1: "parseCompletionResponse \<lparr>choices = None\<rparr> = []" by blast
  from parsers_on_choices [of "\<lparr>choices = Some []\<rparr>"] b
  have 2: "parseExplanationResponse \<lparr>choices = Some []\<rparr> = ''No explanation available.'' \<and>
   parseRefactorResponse \<lparr>choices = Some []\<rparr> = ''No refactoring suggestions available.''" by blast
  from parsers_on_choices [of sample_response] c
  have 3: "length (parseCompletionResponse sample_response) \<le> 5 \<and>
   (\<forall>s \<in> set (parseCompletionResponse sample_response).
      s \<noteq> [] \<and> s \<in> trim ` set (split_lines sample_content) \<and> trim s = s)"
    by (metis deepseek_choice.select_convs(2) deepseek_message.select_convs(2))
  from 3 have 4: "[] \<notin> set (parseCompletionResponse sample_response)" by blast
  from 3 have 5: "set (parseCompletionResponse sample_response)
      \<subseteq> trim ` set (split_lines sample_content)" by blast
  from 3 have 6: "map trim (parseCompletionResponse sample_response)
      = parseCompletionResponse sample_response" by (simp add: map_idI)
  from 1 2 3 4 5 6 sample_parse show ?thesis by blast
qed


section \<open>The configuration validator\<close>

lemma maxTokens_out_of_range:
  assumes "maxTokens c < 100 \<or> maxTokens c > 8192"
  shows "\<not> isValid (validateConfiguration c)"
    and "\<exists>e \<in> set (errors (validateConfiguration c)). field e = ''maxTokens'' \<and> severity e = Error"
  using assms by (auto simp: validateConfiguration_def collected_def)

lemma maxTokens_warning_iff:
  "(\<exists>w \<in> set (warnings (validateConfiguration c)). field w = ''maxTokens'') \<longleftrightarrow> maxTokens c > 4096"
  by (auto simp: validateConfiguration_def collected_def)

lemma isValid_iff:
  "isValid (validateConfiguration c) \<longleftrightarrow>
     \<not> (apiKey c = [] \<or> trim (apiKey c) = []) \<and>
     model c \<in> {''deepseek-coder'', ''deepseek-chat''} \<and>
     100 \<le> maxTokens c \<and> maxTokens c \<le> 8192 \<and>
     0 \<le> temperature c \<and> temperature c \<le> 2"
  by (auto simp: validateConfiguration_def collected_def)

text \<open>
  C7: a \<open>maxTokens\<close> below 100 or above 8192 makes the result invalid and puts an
  error-severity issue for \<open>maxTokens\<close> among the errors. At 4096 there is no warning for
  \<open>maxTokens\<close>; at 4097 there is one, and \<open>isValid\<close> is what it is at 4096. Above 8192 the
  range error and the performance warning are both present.
\<close>

theorem maxTokens_validation:
  "(maxTokens c < 100 \<or> maxTokens c > 8192 \<longrightarrow>
      \<not> isValid (validateConfiguration c) \<and>
      (\<exists>e \<in> set (errors (validateConfiguration c)). field e = ''maxTokens'' \<and> severity e = Error)) \<and>
   (maxTokens c = 4096 \<longrightarrow>
      \<not> (\<exists>w \<in> set (warnings (validateConfiguration c)). field w = ''maxTokens'')) \<and>
   (maxTokens c = 4097 \<longrightarrow>
      (\<exists>w \<in> set (warnings (validateConfiguration c)).
         field w = ''maxTokens'' \<and> severity w = Warning) \<and>
      isValid (validateConfiguration c) = isValid (validateConfiguration (c\<lparr>maxTokens := 4096\<rparr>))) \<and>
   (maxTokens c > 8192 \<longrightarrow>
      (\<exists>e \<in> set (errors (validateConfiguration c)). field e = ''maxTokens'' \<and> severity e = Error) \<and>
      (\<exists>w \<in> set (warnings (validateConfiguration c)).
         field w = ''maxTokens'' \<and> severity w = Warning))"
proof (intro conjI impI)
  assume "maxTokens c < 100 \<or> maxTokens c > 8192"
  then show "\<not> isValid (validateConfiguration c)" by (rule maxTokens_out_of_range)
next
  assume "maxTokens c < 100 \<or> maxTokens c > 8192"
  then show "\<exists>e \<in> set (errors (validateConfiguration c)). field e = ''maxTokens'' \<and> severity e = Error"
    by (rule maxTokens_out_of_range)
next
  assume "maxTokens c = 4096"
  then show "\<not> (\<exists>w \<in> set (warnings (validateConfiguration c)). field w = ''maxTokens'')"
    by (simp add: maxTokens_warning_iff)
next
  assume "maxTokens c = 4097"
  then show "\<exists>w \<in> set (warnings (validateConfiguration c)).
         field w = ''maxTokens'' \<and> severity w = Warning"
    by (auto simp: validateConfiguration_def collected_def)
next
  assume "maxTokens c = 4097"
  then show "isValid (validateConfiguration c) = isValid (validateConfiguration (c\<lparr>maxTokens := 4096\<rparr>))"
    by (simp add: isValid_iff)
next
  assume "maxTokens c > 8192"
  then show "\<exists>e \<in> set (errors (validateConfiguration c)). field e = ''maxTokens'' \<and> severity e = Error"
    by (simp add: maxTokens_out_of_range)
next
  assume "maxTokens c > 8192"
  then show "\<exists>w \<in> set (warnings (validateConfiguration c)).
         field w = ''maxTokens'' \<and> severity w = Warning"
    by (auto simp: validateConfiguration_def collected_def)
qed

lemma sample_config_valid: "validateConfiguration sample_config = \<lparr>isValid = True, errors = [], warnings = []\<rparr>"
  by (simp add: validateConfiguration_def collected_def sample_config_def trim_def is_whitespace_def isValidApiKeyFormat_def starts_with_def)

theorem maxTokens_validation_witness:
  "\<not> isValid (validateConfiguration (sample_config\<lparr>maxTokens := 99\<rparr>)) \<and>
   \<not> isValid (validateConfiguration (sample_config\<lparr>maxTokens := 8193\<rparr>)) \<and>
   isValid (validateConfiguration (sample_config\<lparr>maxTokens := 4096\<rparr>)) \<and>
   warnings (validateConfiguration (sample_config\<lparr>maxTokens := 4096\<rparr>)) = [] \<and>
   isValid (validateConfiguration (sample_config\<lparr>maxTokens := 4097\<rparr>)) \<and>
   (\<exists>w \<in> set (warnings (validateConfiguration (sample_config\<lparr>maxTokens := 4097\<rparr>))).
      field w = ''maxTokens'' \<and> severity w = Warning) \<and>
   (\<exists>e \<in> set (errors (validateConfiguration (sample_config\<lparr>maxTokens := 8193\<rparr>))).
      field e = ''maxTokens'' \<and> severity e = Error) \<and>
   (\<exists>w \<in> set (warnings (validateConfiguration (sample_config\<lparr>maxTokens := 8193\<rparr>))).
      field w = ''maxTokens'' \<and> severity w = Warning)"
proof -
  have a: "maxTokens (sample_config\<lparr>maxTokens := 99\<rparr>) < 100 \<or> maxTokens (sample_config\<lparr>maxTokens := 99\<rparr>) > 8192"
    by simp
  have b: "maxTokens (sample_config\<lparr>maxTokens := 8193\<rparr>) > 8192" by simp
  have c: "maxTokens (sample_config\<lparr>maxTokens := 4097\<rparr>) = 4097" by simp
  have v: "isValid (validateConfiguration (sample_config\<lparr>maxTokens := 4096\<rparr>))"
    and w: "warnings (validateConfiguration (sample_config\<lparr>maxTokens := 4096\<rparr>)) = []"
    by (simp_all add: validateConfiguration_def collected_def sample_config_def trim_def is_whitespace_def isValidApiKeyFormat_def starts_with_def)
  from maxTokens_validation [of "sample_config\<lparr>maxTokens := 99\<rparr>"] a
  have 1: "\<not> isValid (validateConfiguration (sample_config\<lparr>maxTokens := 99\<rparr>))" by blast
  from maxTokens_validation [of "sample_config\<lparr>maxTokens := 8193\<rparr>"] b
  have 2: "\<not> isValid (validateConfiguration (sample_config\<lparr>maxTokens := 8193\<rparr>)) \<and>
    (\<exists>e \<in> set (errors (validateConfiguration (sample_config\<lparr>maxTokens := 8193\<rparr>))).
      field e = ''maxTokens'' \<and> severity e = Error) \<and>
   (\<exists>w \<in> set (warnings (validateConfiguration (sample_config\<lparr>maxTokens := 8193\<rparr>))).
      field w = ''maxTokens'' \<and> severity w = Warning)" by blast
  from maxTokens_validation [of "sample_config\<lparr>maxTokens := 4097\<rparr>"] c
  have 3: "(\<exists>w \<in> set (warnings (validateConfiguration (sample_config\<lparr>maxTokens := 4097\<rparr>))).
      field w = ''maxTokens'' \<and> severity w = Warning) \<and>
     isValid (validateConfiguration (sample_config\<lparr>maxTokens := 4097\<rparr>)) =
     isValid (validateConfiguration (sample_config\<lparr>maxTokens := 4097, maxTokens := 4096\<rparr>))"
    by blast
  then have 4: "isValid (validateConfiguration (sample_config\<lparr>maxTokens := 4097\<rparr>))"
    using v by simp
  from 1 2 3 4 v w show ?thesis by blast
qed


section \<open>The retry loop\<close>

lemma handleApiError_no_response: "err_response (handleApiError e) = None"
  by (simp add: handleApiError_def new_Error_def split: option.splits)

lemma shouldRetry_handleApiError: "shouldRetry (handleApiError e)"
  by (simp add: shouldRetry_def handleApiError_no_response)

lemma makeRequest_Rejected:
  "makeRequest (Rejected dt e # rs) st ep d =
     (let c = (case retryCount st (ep, now st) of None \<Rightarrow> 0 | Some n \<Rightarrow> n) in
      if c < MAX_RETRIES
      then makeRequest rs
             ((issue st ep d)\<lparr>retryCount := (retryCount st)((ep, now st) \<mapsto> c + 1),
                delays := delays st @ [2 ^ c * 1000],
                now := now st + dt + 2 ^ c * 1000\<rparr>) ep d
      else (Threw (handleApiError e),
            (issue st ep d)\<lparr>now := now st + dt,
               retryCount := (retryCount st)((ep, now st) := None)\<rparr>))"
  by (simp add: Let_def shouldRetry_handleApiError issue_def)

lemma makeRequest_Resolved:
  "makeRequest (Resolved dt r # rs) st ep d =
     (Returned r, (issue st ep d)\<lparr>now := now st + dt,
        retryCount := (retryCount st)((ep, now st) := None)\<rparr>)"
  by (simp add: Let_def issue_def)

declare makeRequest.simps(2) [simp del]

lemma always_rejected_pending:
  assumes "\<forall>t \<ge> now st. retryCount st (ep, t) = None"
  shows "fst (makeRequest (map (\<lambda>(dt, e). Rejected dt e) es) st ep d) = Pending \<and>
         length (sent (snd (makeRequest (map (\<lambda>(dt, e). Rejected dt e) es) st ep d)))
           = length (sent st) + length es + 1 \<and>
         delays (snd (makeRequest (map (\<lambda>(dt, e). Rejected dt e) es) st ep d))
           = delays st @ replicate (length es) 1000"
  using assms
proof (induction es arbitrary: st)
  case Nil
  then show ?case by (simp add: issue_def)
next
  case (Cons x es)
  obtain dt e where x: "x = (dt, e)" by (cases x)
  let ?st' = "(issue st ep d)\<lparr>retryCount := (retryCount st)((ep, now st) \<mapsto> 0 + 1),
                delays := delays st @ [2 ^ 0 * 1000],
                now := now st + dt + 2 ^ 0 * 1000\<rparr>"
  have none: "retryCount st (ep, now st) = None" using Cons.prems by simp
  have step: "makeRequest (map (\<lambda>(dt, e). Rejected dt e) (x # es)) st ep d
      = makeRequest (map (\<lambda>(dt, e). Rejected dt e) es) ?st' ep d"
    unfolding x by (simp only: list.map prod.case makeRequest_Rejected none option.case Let_def)
      (simp add: MAX_RETRIES_def)
  have inv: "\<forall>t \<ge> now ?st'. retryCount ?st' (ep, t) = None"
    using Cons.prems by (simp add: issue_def)
  from Cons.IH [OF inv] show ?case
    unfolding step by (simp add: issue_def replicate_append_same [symmetric] del: replicate_Suc)
      (simp add: replicate_append_same)
qed

lemma replicate_5: "replicate 5 x = [x, x, x, x, x]"
  by (simp add: eval_nat_numeral)

text \<open>
  C1, at a client that has made no request yet and a transport that refuses every
  connection: after five failed attempts the call has neither returned nor thrown. A sixth
  request is on its way, and each delay was one second.
\<close>

theorem network_failures_retried_past_MAX_RETRIES:
  "fst (makeRequest (replicate 5 (Rejected 20 network_failure)) fresh_client
          ''/chat/completions'' probe) = Pending \<and>
   length (sent (snd (makeRequest (replicate 5 (Rejected 20 network_failure)) fresh_client
          ''/chat/completions'' probe))) = 6 \<and>
   delays (snd (makeRequest (replicate 5 (Rejected 20 network_failure)) fresh_client
          ''/chat/completions'' probe)) = [1000, 1000, 1000, 1000, 1000]"
  by (simp add: replicate_5 makeRequest_Rejected fresh_client_def MAX_RETRIES_def
      issue_def Let_def)

text \<open>
  C2, at two 503 answers followed by a success: the call returns the response after three
  requests, but it waited one second both times, and the map still holds the entries of the
  two failed attempts.
\<close>

theorem server_fault_twice_then_success:
  "fst (makeRequest [Rejected 20 (status_failure 503), Rejected 20 (status_failure 503),
                     Resolved 20 empty_response]
          fresh_client ''/chat/completions'' probe) = Returned empty_response \<and>
   length (sent (snd (makeRequest [Rejected 20 (status_failure 503), Rejected 20 (status_failure 503),
                     Resolved 20 empty_response]
          fresh_client ''/chat/completions'' probe))) = 3 \<and>
   delays (snd (makeRequest [Rejected 20 (status_failure 503), Rejected 20 (status_failure 503),
                     Resolved 20 empty_response]
          fresh_client ''/chat/completions'' probe)) = [1000, 1000] \<and>
   retryCount (snd (makeRequest [Rejected 20 (status_failure 503), Rejected 20 (status_failure 503),
                     Resolved 20 empty_response]
          fresh_client ''/chat/completions'' probe)) (''/chat/completions'', 0) = Some 1 \<and>
   retryCount (snd (makeRequest [Rejected 20 (status_failure 503), Rejected 20 (status_failure 503),
                     Resolved 20 empty_response]
          fresh_client ''/chat/completions'' probe)) (''/chat/completions'', 1020) = Some 1"
  by (simp add: makeRequest_Rejected makeRequest_Resolved fresh_client_def MAX_RETRIES_def
      issue_def Let_def)

text \<open>
  C3, at a 401 answer followed by a 418 answer: \<open>shouldRetry\<close> is false on the 401 failure
  itself but true on the error the interceptor throws in its place, so both failures are
  retried after a one-second delay, and a third request is on its way.
\<close>

theorem authentication_failure_retried:
  "\<not> shouldRetry (status_failure 401) \<and>
   shouldRetry (handleApiError (status_failure 401)) \<and>
   fst (makeRequest [Rejected 20 (status_failure 401), Rejected 20 (status_failure 418)]
          fresh_client ''/chat/completions'' probe) = Pending \<and>
   length (sent (snd (makeRequest [Rejected 20 (status_failure 401), Rejected 20 (status_failure 418)]
          fresh_client ''/chat/completions'' probe))) = 3 \<and>
   delays (snd (makeRequest [Rejected 20 (status_failure 401), Rejected 20 (status_failure 418)]
          fresh_client ''/chat/completions'' probe)) = [1000, 1000]"
  by (simp add: makeRequest_Rejected fresh_client_def MAX_RETRIES_def shouldRetry_handleApiError
      issue_def Let_def) (simp add: shouldRetry_def status_failure_def)


section \<open>The operations\<close>

lemma makeRequest_issues:
  "\<exists>rest. sent (snd (makeRequest rs st ep d)) =
     sent st @ \<lparr>authorization = ''Bearer '' @ apiKey (config st), url = ep, body = d\<rparr> # rest"
proof (induction rs arbitrary: st)
  case Nil
  show ?case by (simp add: issue_def)
next
  case (Cons r rs)
  show ?case
  proof (cases r)
    case (Resolved dt response)
    then show ?thesis by (simp add: makeRequest_Resolved issue_def)
  next
    case (Rejected dt e)
    define c where "c = (case retryCount st (ep, now st) of None \<Rightarrow> 0 | Some n \<Rightarrow> n)"
    show ?thesis
    proof (cases "c < MAX_RETRIES")
      case True
      define st' where "st' = (issue st ep d)\<lparr>retryCount := (retryCount st)((ep, now st) \<mapsto> c + 1),
                delays := delays st @ [2 ^ c * 1000],
                now := now st + dt + 2 ^ c * 1000\<rparr>"
      have step: "makeRequest (r # rs) st ep d = makeRequest rs st' ep d"
        unfolding Rejected makeRequest_Rejected st'_def c_def [symmetric] using True
        by (simp only: Let_def if_True)
      from Cons.IH [of st'] obtain rest where
        "sent (snd (makeRequest rs st' ep d)) =
           sent st' @ \<lparr>authorization = ''Bearer '' @ apiKey (config st'), url = ep, body = d\<rparr> # rest"
        by blast
      then show ?thesis unfolding step by (simp add: st'_def issue_def)
    next
      case False
      have "makeRequest (r # rs) st ep d = (Threw (handleApiError e),
            (issue st ep d)\<lparr>now := now st + dt,
               retryCount := (retryCount st)((ep, now st) := None)\<rparr>)"
        unfolding Rejected makeRequest_Rejected c_def [symmetric] using False
        by (simp only: Let_def if_False)
      then show ?thesis by (simp add: issue_def)
    qed
  qed
qed

lemma makeRequest_first_request:
  "\<exists>r rest. sent (snd (makeRequest rs st ep d)) = sent st @ r # rest \<and>
     authorization r = ''Bearer '' @ apiKey (config st) \<and> url r = ep"
  using makeRequest_issues [of rs st ep d] by auto

lemma snd_outcome_case:
  "snd (case p of (Returned x, s) \<Rightarrow> (f x, s) | (Threw e, s) \<Rightarrow> (g e, s) | (Pending, s) \<Rightarrow> (h, s))
     = snd p"
  by (cases p) (auto split: outcome.splits)


text \<open>
  C4, as the code has it: no operation consults the validation result. Whatever the
  configuration, each of the four operations issues its first request at once, to the
  chat-completion endpoint and carrying the configured API key as bearer credential.
\<close>

theorem operations_issue_request_whatever_the_validation:
  "(\<exists>r rest. sent (snd (generateCompletion replies st prompt)) = sent st @ r # rest \<and>
      authorization r = ''Bearer '' @ apiKey (config st) \<and> url r = ''/chat/completions'') \<and>
   (\<exists>r rest. sent (snd (explainCode replies st prompt)) = sent st @ r # rest \<and>
      authorization r = ''Bearer '' @ apiKey (config st) \<and> url r = ''/chat/completions'') \<and>
   (\<exists>r rest. sent (snd (refactorCode replies st prompt)) = sent st @ r # rest \<and>
      authorization r = ''Bearer '' @ apiKey (config st) \<and> url r = ''/chat/completions'') \<and>
   (\<exists>r rest. sent (snd (testConnection replies st)) = sent st @ r # rest \<and>
      authorization r = ''Bearer '' @ apiKey (config st) \<and> url r = ''/chat/completions'')"
  unfolding generateCompletion_def explainCode_def refactorCode_def testConnection_def Let_def
    snd_outcome_case
  by (intro conjI makeRequest_first_request)

text \<open>
  C4 as stated fails: with a blank API key the validation result is invalid, and each
  operation still issues a request.
\<close>

theorem invalid_configuration_still_sends:
  "\<not> isValid (validateConfiguration (config invalid_client)) \<and>
   length (sent (snd (generateCompletion [] invalid_client ''complete''))) = 1 \<and>
   length (sent (snd (explainCode [] invalid_client ''explain''))) = 1 \<and>
   length (sent (snd (refactorCode [] invalid_client ''refactor''))) = 1 \<and>
   length (sent (snd (testConnection [] invalid_client))) = 1 \<and>
   map authorization (sent (snd (testConnection [] invalid_client))) = [''Bearer '']"
  by (simp add: invalid_client_def fresh_client_def sample_config_def validateConfiguration_def
      collected_def generateCompletion_def explainCode_def refactorCode_def testConnection_def
      issue_def)








section \<open>The classifier\<close>

text \<open>
  C6, as the code has it: on a failure that is an object or a literal string,
  \<open>ErrorHandler.handleApiError\<close> decides by first match among three predicates and raises
  nothing. It sends an object to the network, authentication or rate-limit handler exactly
  when the specification's classifier says Network, Authentication or RateLimit, and sends
  every other object, and every literal string, to the general handler.
\<close>

theorem route_collapses_classification:
  "route (Obj e) =
     Inr (case classify_spec e of
            Network \<Rightarrow> NetworkHandler
          | Authentication \<Rightarrow> AuthenticationHandler
          | RateLimit \<Rightarrow> RateLimitHandler
          | ServerFault \<Rightarrow> GeneralHandler
          | ClientFault \<Rightarrow> GeneralHandler
          | Unknown \<Rightarrow> GeneralHandler) \<and>
   route (Str s) = Inr GeneralHandler"
  by (auto simp: route_def classify_spec_def isNetworkError_def isAuthenticationError_def
      isRateLimitError_def split: option.splits)

text \<open>
  C6 as stated fails twice. The claim gives a 503 failure, a 418 failure and a plain object
  three different classes; the handler takes the same branch for all three, and the client's
  interceptor throws the same error for the 503 and the 418 failure. And the dispatch is not
  total: on \<open>null\<close> or \<open>undefined\<close> the first predicate raises a \<open>TypeError\<close>.
\<close>

theorem server_and_client_faults_share_a_route:
  "classify_spec (status_failure 503) = ServerFault \<and>
   classify_spec (status_failure 418) = ClientFault \<and>
   classify_spec plain_failure = Unknown \<and>
   route (Obj (status_failure 503)) = Inr GeneralHandler \<and>
   route (Obj (status_failure 418)) = Inr GeneralHandler \<and>
   route (Obj plain_failure) = Inr GeneralHandler \<and>
   handleApiError (status_failure 503) = handleApiError (status_failure 418) \<and>
   route Nullish = Inl TypeError \<and>
   errorHandler_handleApiError quiet_handler Nullish ''chat'' = Inl TypeError"
  by (simp add: route_def classify_spec_def isNetworkError_def isAuthenticationError_def
      isRateLimitError_def status_failure_def plain_failure_def handleApiError_def
      errorHandler_handleApiError_def)

section \<open>The notification throttle\<close>

lemma fold_delete:
  "fold (\<lambda>(due, key) m. m(key := None)) ts m k = (if k \<in> snd ` set ts then None else m k)"
  by (induction ts arbitrary: m) (auto split: prod.splits)

lemma elapse_errorCount:
  "errorCount (elapse t st) k =
     (if \<exists>due. (due, k) \<in> set (timers st) \<and> due \<le> t then None else errorCount st k)"
  by (auto simp: elapse_def fold_delete image_iff)

lemma elapse_timers: "set (timers (elapse t st)) \<subseteq> set (timers st)"
  by (auto simp: elapse_def)

lemma elapse_shown: "shown (elapse t st) = shown st"
  by (simp add: elapse_def)

lemma elapse_clock: "clock (elapse t st) = max (clock st) t"
  by (simp add: elapse_def)

lemma handleError_errorCount:
  "errorCount (handleError st error context showUser) k =
     (if k = getErrorKey error context
      then Some ((case errorCount st k of None \<Rightarrow> 0 | Some n \<Rightarrow> n) + 1)
      else errorCount st k)"
  by (simp add: handleError_def Let_def showErrorToUser_def)

lemma handleError_timers:
  "timers (handleError st error context showUser) =
     timers st @ [(clock st + RESET_MS, getErrorKey error context)]"
  by (simp add: handleError_def Let_def showErrorToUser_def)

lemma handleError_shown:
  "shown (handleError st error context showUser) =
     shown st @
     (if showUser \<and> (case errorCount st (getErrorKey error context) of None \<Rightarrow> 0 | Some n \<Rightarrow> n)
          < maxErrorsPerType
      then [''Error in '' @ context @ '': '' @ getErrorMessage error] else [])"
  by (simp add: handleError_def Let_def showErrorToUser_def)

lemma window_run:
  assumes "\<forall>(due, k') \<in> set (timers st). k' = k \<longrightarrow> D \<le> due"
    and "\<forall>(t, error, context) \<in> set es.
           getErrorKey error context = k \<and> t < D \<and> D \<le> t + RESET_MS"
  shows "errorCount (occurrences st es) k =
           (if es = [] then errorCount st k
            else Some ((case errorCount st k of None \<Rightarrow> 0 | Some n \<Rightarrow> n) + length es)) \<and>
         shown (occurrences st es) =
           shown st @ map user_message
             (take (maxErrorsPerType - (case errorCount st k of None \<Rightarrow> 0 | Some n \<Rightarrow> n)) es)"
  using assms
proof (induction es arbitrary: st)
  case Nil
  then show ?case by simp
next
  case (Cons occ es)
  obtain t error ctx where occ: "occ = (t, error, ctx)" by (cases occ)
  from Cons.prems(2) have key: "getErrorKey error ctx = k" and lt: "t < D"
    and ge: "D \<le> t + RESET_MS"
    by (auto simp: occ)
  define c where "c = (case errorCount st k of None \<Rightarrow> 0 | Some n \<Rightarrow> n)"
  define st1 where "st1 = elapse t st"
  define st2 where "st2 = handleError st1 error ctx True"
  have nofire: "\<not> (\<exists>due. (due, k) \<in> set (timers st) \<and> due \<le> t)"
    using Cons.prems(1) lt by fastforce
  have count1: "errorCount st1 k = errorCount st k"
    by (simp add: st1_def elapse_errorCount nofire)
  have shown1: "shown st1 = shown st"
    by (simp add: st1_def elapse_shown)
  have count2: "errorCount st2 k = Some (c + 1)"
    by (simp add: st2_def handleError_errorCount key count1 c_def)
  have shown2: "shown st2 = shown st @ (if c < maxErrorsPerType then [user_message occ] else [])"
    by (simp add: st2_def handleError_shown key count1 c_def shown1 user_message_def occ)
  have timers2: "\<forall>(due, k') \<in> set (timers st2). k' = k \<longrightarrow> D \<le> due"
  proof -
    have "set (timers st2) \<subseteq> set (timers st) \<union> {(max (clock st) t + RESET_MS, k)}"
      using elapse_timers [of t st]
      by (auto simp: st2_def handleError_timers st1_def elapse_clock key)
    moreover have "D \<le> max (clock st) t + RESET_MS" using ge by simp
    ultimately show ?thesis using Cons.prems(1) by fastforce
  qed
  have rest: "\<forall>(t, error, context) \<in> set es.
           getErrorKey error context = k \<and> t < D \<and> D \<le> t + RESET_MS"
    using Cons.prems(2) by simp
  have unfold: "occurrences st (occ # es) = occurrences st2 es"
    by (simp add: occ st2_def st1_def)
  note IH = Cons.IH [OF timers2 rest, unfolded count2 option.case]
  have "errorCount (occurrences st (occ # es)) k = Some (c + length (occ # es))"
    unfolding unfold using IH by (auto simp: count2)
  moreover have "shown (occurrences st (occ # es)) =
      shown st @ map user_message (take (maxErrorsPerType - c) (occ # es))"
  proof (cases "c < maxErrorsPerType")
    case True
    then have "maxErrorsPerType - c = Suc (maxErrorsPerType - (c + 1))" by simp
    then show ?thesis unfolding unfold using IH True by (simp add: shown2)
  next
    case False
    then show ?thesis unfolding unfold using IH by (simp add: shown2)
  qed
  ultimately show ?case by (simp add: c_def)
qed

text \<open>
  What holds of C8: the key is the context, a colon and the first 50 characters of the
  extracted message. Take a key with no record, a window of five minutes after some time
  \<open>t0\<close> in which no timer pending for that key falls due, and occurrences of that key that
  all lie in the window. Then exactly the first five are shown to the user, and after \<open>n\<close>
  occurrences the stored count is \<open>n\<close> (the first one creates it as 1).
\<close>

lemma five_notifications_when_no_timer_falls_due:
  "getErrorKey error context = context @ '':'' @ take 50 (getErrorMessage error) \<and>
   (errorCount st k = None \<and>
    (\<forall>(due, k') \<in> set (timers st). k' = k \<longrightarrow> t0 + RESET_MS \<le> due) \<and>
    (\<forall>(t, error, context) \<in> set es.
       getErrorKey error context = k \<and> t0 \<le> t \<and> t < t0 + RESET_MS) \<longrightarrow>
    shown (occurrences st es) = shown st @ map user_message (take 5 es) \<and>
    errorCount (occurrences st es) k = (if es = [] then None else Some (length es)))"
proof (intro conjI impI)
  show "getErrorKey error context = context @ '':'' @ take 50 (getErrorMessage error)"
    by (simp add: getErrorKey_def)
next
  assume h: "errorCount st k = None \<and>
    (\<forall>(due, k') \<in> set (timers st). k' = k \<longrightarrow> t0 + RESET_MS \<le> due) \<and>
    (\<forall>(t, error, context) \<in> set es.
       getErrorKey error context = k \<and> t0 \<le> t \<and> t < t0 + RESET_MS)"
  then have a: "\<forall>(due, k') \<in> set (timers st). k' = k \<longrightarrow> t0 + RESET_MS \<le> due"
    by blast
  from h have b: "\<forall>(t, error, context) \<in> set es.
           getErrorKey error context = k \<and> t < t0 + RESET_MS \<and> t0 + RESET_MS \<le> t + RESET_MS"
    by fastforce
  from window_run [OF a b] h
  show "shown (occurrences st es) = shown st @ map user_message (take 5 es)"
    by (simp add: maxErrorsPerType_def)
  from window_run [OF a b] h
  show "errorCount (occurrences st es) k = (if es = [] then None else Some (length es))"
    by simp
qed

lemma six_keys:
  "\<forall>(t, error, context) \<in> set six_occurrences.
     getErrorKey error context = sample_key \<and> 1000 \<le> t \<and> t < 1000 + RESET_MS"
  by (simp add: six_occurrences_def sample_key_def getErrorKey_def getErrorMessage_def
      reset_by_peer_def timed_out_def new_Error_def RESET_MS_def)

lemma five_of_six_occurrences_shown:
  "getErrorKey reset_by_peer ''completion'' = sample_key \<and>
   getErrorKey timed_out ''completion'' = sample_key \<and>
   shown (occurrences quiet_handler six_occurrences) = map user_message (take 5 six_occurrences) \<and>
   length (shown (occurrences quiet_handler six_occurrences)) = 5 \<and>
   errorCount (occurrences quiet_handler six_occurrences) sample_key = Some 6"
proof -
  have pre: "errorCount quiet_handler sample_key = None \<and>
    (\<forall>(due, k') \<in> set (timers quiet_handler). k' = sample_key \<longrightarrow> 1000 + RESET_MS \<le> due) \<and>
    (\<forall>(t, error, context) \<in> set six_occurrences.
       getErrorKey error context = sample_key \<and> 1000 \<le> t \<and> t < 1000 + RESET_MS)"
    using six_keys by (simp add: quiet_handler_def)
  note inst = five_notifications_when_no_timer_falls_due
    [where st = quiet_handler and k = sample_key and es = six_occurrences and ?t0.0 = 1000]
  from inst pre have run:
    "shown (occurrences quiet_handler six_occurrences) =
       shown quiet_handler @ map user_message (take 5 six_occurrences) \<and>
     errorCount (occurrences quiet_handler six_occurrences) sample_key =
       (if six_occurrences = [] then None else Some (length six_occurrences))"
    by blast
  have keys: "getErrorKey reset_by_peer ''completion'' = sample_key \<and>
      getErrorKey timed_out ''completion'' = sample_key"
    using six_keys by (simp add: six_occurrences_def)
  from run keys show ?thesis
    by (simp add: quiet_handler_def) (simp add: six_occurrences_def)
qed

text \<open>
  C8, at the last seven of the nine occurrences above. At 310 s the key has no record, and
  the timer set by the occurrence at 100 s is pending. All seven occurrences have that key
  and lie within the five minutes from 310 s. The first five are shown and the sixth is not,
  as claimed, but the seventh, at 410 s, is shown: the pending timer has deleted the record
  at 400 s.
\<close>

theorem sixth_notification_inside_one_window:
  "getErrorKey unreachable ''chat'' = ''chat:Host unreachable'' \<and>
   errorCount (elapse 310000 (occurrences quiet_handler (take 2 stale_timer_run)))
     ''chat:Host unreachable'' = None \<and>
   timers (elapse 310000 (occurrences quiet_handler (take 2 stale_timer_run)))
     = [(400000, ''chat:Host unreachable'')] \<and>
   length (drop 2 stale_timer_run) = 7 \<and>
   list_all (\<lambda>occ. getErrorKey (fst (snd occ)) (snd (snd occ)) = ''chat:Host unreachable'' \<and>
                    310000 \<le> fst occ \<and> fst occ < 310000 + RESET_MS)
     (drop 2 stale_timer_run) \<and>
   shown (occurrences (elapse 310000 (occurrences quiet_handler (take 2 stale_timer_run)))
            (drop 2 stale_timer_run))
     = shown (elapse 310000 (occurrences quiet_handler (take 2 stale_timer_run)))
       @ map user_message (take 5 (drop 2 stale_timer_run))
       @ [user_message (last stale_timer_run)] \<and>
   errorCount (occurrences (elapse 310000 (occurrences quiet_handler (take 2 stale_timer_run)))
                 (drop 2 stale_timer_run)) ''chat:Host unreachable'' = Some 1"
  by (simp add: stale_timer_run_def quiet_handler_def unreachable_def elapse_def handleError_def
      showErrorToUser_def getErrorKey_def getErrorMessage_def RESET_MS_def maxErrorsPerType_def
      user_message_def Let_def)

text \<open>
  C9, at the nine occurrences above. The record created at 0 s is removed at 300 s by the
  first timer; the timer set by the occurrence at 100 s stays pending. The record recreated
  at 310 s is removed by that timer at 400 s, 90 seconds after its creation. Its first five
  occurrences are shown and the sixth, at 360 s, is not; the occurrence at 410 s is shown
  again, inside the five minutes that began at 310 s.
\<close>

theorem stale_timer_cuts_record_short:
  "errorCount (occurrences quiet_handler (take 2 stale_timer_run)) ''chat:Host unreachable'' = Some 2 \<and>
   errorCount (occurrences quiet_handler (take 3 stale_timer_run)) ''chat:Host unreachable'' = Some 1 \<and>
   errorCount (elapse 399999 (occurrences quiet_handler (take 3 stale_timer_run)))
     ''chat:Host unreachable'' = Some 1 \<and>
   errorCount (elapse 400000 (occurrences quiet_handler (take 3 stale_timer_run)))
     ''chat:Host unreachable'' = None \<and>
   length (shown (occurrences quiet_handler (take 7 stale_timer_run))) = 7 \<and>
   length (shown (occurrences quiet_handler (take 8 stale_timer_run))) = 7 \<and>
   length (shown (occurrences quiet_handler stale_timer_run)) = 8"
  by (simp add: stale_timer_run_def quiet_handler_def unreachable_def elapse_def handleError_def
      showErrorToUser_def getErrorKey_def getErrorMessage_def RESET_MS_def maxErrorsPerType_def
      Let_def)

lemma window_timers:
  assumes "\<forall>(due, k') \<in> set (timers st). k' = k \<longrightarrow> D \<le> due"
    and "\<forall>(t, error, context) \<in> set es. getErrorKey error context = k \<and> D \<le> t + RESET_MS"
  shows "\<forall>(due, k') \<in> set (timers (occurrences st es)). k' = k \<longrightarrow> D \<le> due"
  using assms
proof (induction es arbitrary: st)
  case Nil
  then show ?case by simp
next
  case (Cons occ es)
  obtain t error ctx where occ: "occ = (t, error, ctx)" by (cases occ)
  from Cons.prems(2) have key: "getErrorKey error ctx = k" and ge: "D \<le> t + RESET_MS"
    by (auto simp: occ)
  define st2 where "st2 = handleError (elapse t st) error ctx True"
  have "set (timers st2) \<subseteq> set (timers st) \<union> {(max (clock st) t + RESET_MS, k)}"
    using elapse_timers [of t st]
    by (auto simp: st2_def handleError_timers elapse_clock key)
  moreover have "D \<le> max (clock st) t + RESET_MS" using ge by simp
  ultimately have "\<forall>(due, k') \<in> set (timers st2). k' = k \<longrightarrow> D \<le> due"
    using Cons.prems(1) by fastforce
  moreover have "\<forall>(t, error, context) \<in> set es.
      getErrorKey error context = k \<and> D \<le> t + RESET_MS"
    using Cons.prems(2) by simp
  ultimately show ?case using Cons.IH [of st2] by (simp add: occ st2_def)
qed

lemma timer_stays_pending:
  assumes "(D, k) \<in> set (timers st)" and "\<forall>occ \<in> set es. fst occ < D"
  shows "(D, k) \<in> set (timers (occurrences st es))"
  using assms
proof (induction es arbitrary: st)
  case Nil
  then show ?case by simp
next
  case (Cons occ es)
  obtain t error ctx where occ: "occ = (t, error, ctx)" by (cases occ)
  from Cons.prems(2) have "t < D" by (simp add: occ)
  with Cons.prems(1) have "(D, k) \<in> set (timers (handleError (elapse t st) error ctx True))"
    by (simp add: handleError_timers elapse_def)
  moreover have "\<forall>occ \<in> set es. fst occ < D" using Cons.prems(2) by simp
  ultimately show ?case using Cons.IH by (simp add: occ)
qed

text \<open>
  What holds of C9: a record created while no timer for its key is pending lives exactly
  five minutes from its creation, however many occurrences follow within them.
\<close>

lemma fixed_lifetime_when_no_timer_pending:
  assumes fresh: "\<forall>(due, k') \<in> set (timers st). k' \<noteq> k"
    and none: "errorCount st k = None"
    and clock: "clock st \<le> t0"
    and first: "getErrorKey error0 context0 = k"
    and later: "\<forall>(t, error, context) \<in> set es.
                  getErrorKey error context = k \<and> t0 \<le> t \<and> t < t0 + RESET_MS"
  shows "errorCount (elapse t (occurrences st ((t0, error0, context0) # es))) k =
           (if t < t0 + RESET_MS then Some (1 + length es) else None)"
proof -
  let ?D = "t0 + RESET_MS"
  let ?all = "(t0, error0, context0) # es"
  have pre1: "\<forall>(due, k') \<in> set (timers st). k' = k \<longrightarrow> ?D \<le> due"
    using fresh by fastforce
  have pre2: "\<forall>(t, error, context) \<in> set ?all.
      getErrorKey error context = k \<and> t < ?D \<and> ?D \<le> t + RESET_MS"
    using first later by (auto simp: RESET_MS_def)
  have pre3: "\<forall>(t, error, context) \<in> set ?all.
      getErrorKey error context = k \<and> ?D \<le> t + RESET_MS"
    using pre2 by fastforce
  from window_run [OF pre1 pre2] none
  have count: "errorCount (occurrences st ?all) k = Some (1 + length es)" by simp
  have due_late: "\<forall>(due, k') \<in> set (timers (occurrences st ?all)). k' = k \<longrightarrow> ?D \<le> due"
    by (rule window_timers [OF pre1 pre3])
  have "(?D, k) \<in> set (timers (handleError (elapse t0 st) error0 context0 True))"
    using clock first by (simp add: handleError_timers elapse_clock max_absorb2)
  moreover have "\<forall>occ \<in> set es. fst occ < ?D" using later by fastforce
  ultimately have pending: "(?D, k) \<in> set (timers (occurrences st ?all))"
    using timer_stays_pending [of ?D k _ es] by simp
  show ?thesis
  proof (cases "t < ?D")
    case True
    then have "\<not> (\<exists>due. (due, k) \<in> set (timers (occurrences st ?all)) \<and> due \<le> t)"
      using due_late by fastforce
    then show ?thesis using True count by (simp only: elapse_errorCount if_False if_True)
  next
    case False
    then have "\<exists>due. (due, k) \<in> set (timers (occurrences st ?all)) \<and> due \<le> t"
      using pending by (intro exI [of _ ?D]) simp
    then show ?thesis using False by (simp only: elapse_errorCount if_True if_False)
  qed
qed


end
